theory Spec2Isabelle
  imports Main
begin

section \<open>The vue-webrtc component as a state machine\<close>

text \<open>
  The component \<^verbatim>\<open>src/lib-components/vue-webrtc.vue\<close> is a set of closures over four
  refs (\<^verbatim>\<open>signalClient\<close>, \<^verbatim>\<open>videoList\<close>, \<^verbatim>\<open>socket\<close>, \<^verbatim>\<open>videos\<close>). Its
  functions are asynchronous: a function runs up to its next \<^verbatim>\<open>await\<close>, and the rest
  runs when the awaited promise settles. The model is a step function on a state record;
  each event is one uninterrupted run of JavaScript: a call from outside, a message
  delivered by the socket, a callback of a peer connection, or the settling of a promise.
  Everything the browser, socket.io and Vue do is recorded as a trace (calls made on a
  peer connection, messages written to a socket, events emitted to the parent, console
  output), and what they answer is part of the event.
\<close>

subsection \<open>Data\<close>

type_synonym peer_id = string
type_synonym sdp = string
type_synonym candidate = string
type_synonym js_error = string
type_synonym track = nat

text \<open>A \<^verbatim>\<open>MediaStream\<close>: its \<^verbatim>\<open>id\<close> and what \<^verbatim>\<open>getTracks()\<close> returns.\<close>

record media_stream =
  stream_id :: string
  tracks :: "track list"

text \<open>An entry of \<^verbatim>\<open>videoList\<close> (lines 334-339).\<close>

record video =
  video_id :: string
  muted :: bool
  stream :: media_stream
  isLocal :: bool

text \<open>A \<^verbatim>\<open><video></video>\<close> element of the template, as the script reads and writes it.\<close>

record video_element =
  element_id :: string
  clientHeight :: nat
  clientWidth :: nat
  srcObject :: "media_stream option"

text \<open>
  The canvas \<^verbatim>\<open>getCanvas\<close> builds, and the value of \<^verbatim>\<open>canvas.toDataURL(type)\<close>, kept
  symbolic: the requested type and the canvas it was called on.
\<close>

record canvas =
  canvas_height :: nat
  canvas_width :: nat
  drawn :: video_element

datatype data_url = DataURL string canvas

text \<open>
  The props the script reads. \<^verbatim>\<open>peerOptions\<close> is passed to the constructor of
  \<^verbatim>\<open>RTCPeerConnection\<close>, which throws on a malformed configuration: the prop is kept as
  the constructor's verdict. \<^verbatim>\<open>deviceId\<close> and \<^verbatim>\<open>jwtToken\<close> default to \<^verbatim>\<open>null\<close>.
\<close>

datatype rtc_config = ValidConfig | InvalidConfig

record props =
  roomId :: string
  socketURL :: string
  screenshotFormat :: string
  enableAudio :: bool
  enableVideo :: bool
  enableLogs :: bool
  peerOptions :: rtc_config
  deviceId :: "string option"
  jwtToken :: "string option"

text \<open>
  The script calls \<^verbatim>\<open>nextTick\<close> (line 345), but its import from \<^verbatim>\<open>'vue'\<close> (line 12)
  lists only \<^verbatim>\<open>defineComponent, ref, onMounted, onBeforeUnmount\<close>. The identifier is
  therefore looked up in the global scope, which the file does not determine; where it is
  unbound the call raises a \<^verbatim>\<open>ReferenceError\<close>.
\<close>

record globals =
  nextTick_bound :: bool

datatype video_constraint = VideoFlag bool | ExactDevice string

record constraints =
  video :: video_constraint
  audio :: bool

datatype level = LogLevel | WarnLevel | ErrorLevel

datatype emit_arg = Str string | Err js_error

text \<open>What \<^verbatim>\<open>socket.value.emit(name, payload)\<close> writes (lines 178, 195, 246, 267, 307).\<close>

datatype payload = Room string | Offer peer_id sdp | Candidate peer_id candidate

text \<open>What the socket delivers; \<^verbatim>\<open>MConnect\<close> is socket.io assigning \<^verbatim>\<open>socket.id\<close>.\<close>

datatype message =
    MConnect string
  | MConnectError js_error
  | MDiscover "peer_id list"
  | MRequest peer_id
  | MAnswer peer_id sdp
  | MIceCandidate peer_id "candidate option"

text \<open>
  The listeners the script registers with \<^verbatim>\<open>socket.value.on\<close>, each with the variables
  its closure captures: the local stream of the \<^verbatim>\<open>joinRoom\<close> call, or the peer connection
  (its index in \<open>conns\<close>) and the peer it was made for.
\<close>

datatype handler =
    OnConnectError
  | OnDiscover media_stream
  | OnRequest media_stream
  | OnAnswer nat peer_id
  | OnIceCandidate nat peer_id

record sock =
  sock_url :: string
  sock_auth :: string
  sock_id :: "string option"
  disconnected :: bool
  handlers :: "handler list"
  outbox :: "(string \<times> payload) list"

text \<open>
  Methods of \<^verbatim>\<open>RTCPeerConnection\<close>. \<open>Close\<close> is the method \<^verbatim>\<open>close()\<close> of the API; no line
  of the script calls it.
\<close>

datatype pc_call =
    AddTrack track
  | CreateOffer
  | SetLocalDescription sdp
  | SetRemoteDescription sdp
  | AddIceCandidate candidate
  | Close

text \<open>
  A peer connection is a local constant of the closure that built it: the \<^verbatim>\<open>request\<close>
  listener (line 165) or \<^verbatim>\<open>connectToPeer\<close> (line 234). \<open>phase\<close> is the point that
  closure's asynchronous body has reached.
\<close>

datatype origin = ViaRequest | ViaDiscover

datatype phase = AwaitCreateOffer | AwaitSetLocalDescription sdp | Negotiated | Failed

record conn =
  peer :: peer_id
  origin :: origin
  calls :: "pc_call list"
  phase :: phase

record state =
  socket :: "nat option"
  sockets :: "sock list"
  videoList :: "video list"
  videos :: "video_element list"
  conns :: "conn list"
  joining :: nat
  gum_calls :: "constraints list"
  pending :: "(nat \<times> pc_call) list"
  ticks :: "media_stream list"
  emitted :: "(string \<times> emit_arg) list"
  console :: "(level \<times> string) list"
  stopped :: "track list"

definition init :: state where
  "init = \<lparr>socket = None, sockets = [], videoList = [], videos = [], conns = [],
     joining = 0, gum_calls = [], pending = [], ticks = [], emitted = [], console = [],
     stopped = []\<rparr>"

subsection \<open>Helpers of the script and of the libraries\<close>

definition log :: "props \<Rightarrow> string \<Rightarrow> state \<Rightarrow> state" where
  "log p msg s = (if enableLogs p then s\<lparr>console := console s @ [(LogLevel, msg)]\<rparr> else s)"

definition console_error :: "string \<Rightarrow> state \<Rightarrow> state" where
  "console_error msg s = s\<lparr>console := console s @ [(ErrorLevel, msg)]\<rparr>"

definition console_warn :: "string \<Rightarrow> state \<Rightarrow> state" where
  "console_warn msg s = s\<lparr>console := console s @ [(WarnLevel, msg)]\<rparr>"

definition emit :: "string \<Rightarrow> emit_arg \<Rightarrow> state \<Rightarrow> state" where
  "emit name arg s = s\<lparr>emitted := emitted s @ [(name, arg)]\<rparr>"

definition sock_on :: "nat \<Rightarrow> handler \<Rightarrow> state \<Rightarrow> state" where
  "sock_on k h s =
     s\<lparr>sockets := (sockets s)[k := (sockets s ! k)\<lparr>handlers := handlers (sockets s ! k) @ [h]\<rparr>]\<rparr>"

definition sock_emit :: "nat \<Rightarrow> string \<Rightarrow> payload \<Rightarrow> state \<Rightarrow> state" where
  "sock_emit k name pl s =
     s\<lparr>sockets := (sockets s)[k := (sockets s ! k)\<lparr>outbox := outbox (sockets s ! k) @ [(name, pl)]\<rparr>]\<rparr>"

definition pc_call :: "nat \<Rightarrow> pc_call \<Rightarrow> state \<Rightarrow> state" where
  "pc_call i c s = s\<lparr>conns := (conns s)[i := (conns s ! i)\<lparr>calls := calls (conns s ! i) @ [c]\<rparr>]\<rparr>"

definition set_phase :: "nat \<Rightarrow> phase \<Rightarrow> state \<Rightarrow> state" where
  "set_phase i ph s = s\<lparr>conns := (conns s)[i := (conns s ! i)\<lparr>phase := ph\<rparr>]\<rparr>"

subsection \<open>joinedRoom, leaveRoom, getCanvas, capture\<close>

text \<open>
  \<^verbatim>\<open>joinedRoom\<close> (lines 330-354): the entry is pushed unless one with the stream's id is
  found; then \<^verbatim>\<open>nextTick\<close> is called, and only after it \<^verbatim>\<open>joined-room\<close> is emitted. The
  second component is the error the call raises, if any.
\<close>

definition joinedRoom :: "globals \<Rightarrow> media_stream \<Rightarrow> bool \<Rightarrow> state \<Rightarrow> state \<times> js_error option" where
  "joinedRoom g st loc s =
     (let found = find (\<lambda>v. video_id v = stream_id st) (videoList s);
          s1 = (if found = None
                then s\<lparr>videoList := videoList s @
                       [\<lparr>video_id = stream_id st, muted = loc, stream = st, isLocal = loc\<rparr>]\<rparr>
                else s)
      in if nextTick_bound g
         then (emit ''joined-room'' (Str (stream_id st)) (s1\<lparr>ticks := ticks s1 @ [st]\<rparr>), None)
         else (s1, Some ''ReferenceError''))"

text \<open>The callback handed to \<^verbatim>\<open>nextTick\<close> (lines 346-350), run for the oldest pending call.\<close>

definition tick :: "state \<Rightarrow> state" where
  "tick s =
     (case ticks s of
        [] \<Rightarrow> s
      | st # rest \<Rightarrow>
          s\<lparr>ticks := rest,
            videos := map (\<lambda>el. if element_id el = stream_id st then el\<lparr>srcObject := Some st\<rparr> else el)
                        (videos s)\<rparr>)"

text \<open>\<^verbatim>\<open>leaveRoom\<close> (lines 356-374).\<close>

definition leaveRoom :: "props \<Rightarrow> state \<Rightarrow> state" where
  "leaveRoom p s =
     (let s1 = log p ''Leaving room'' s;
          s2 = s1\<lparr>stopped := stopped s1 @ concat (map (\<lambda>v. tracks (stream v)) (videoList s1))\<rparr>;
          s3 = s2\<lparr>videoList := []\<rparr>;
          s4 = (case socket s3 of
                  None \<Rightarrow> s3
                | Some k \<Rightarrow>
                    s3\<lparr>sockets := (sockets s3)[k := (sockets s3 ! k)\<lparr>disconnected := True\<rparr>],
                       socket := None\<rparr>)
      in emit ''left-room'' (Str (roomId p)) s4)"

text \<open>\<^verbatim>\<open>getCanvas\<close> (lines 380-394) and \<^verbatim>\<open>capture\<close> (lines 376-378).\<close>

definition getCanvas :: "state \<Rightarrow> state \<times> canvas option" where
  "getCanvas s =
     (case videos s of
        [] \<Rightarrow> (console_warn ''No video element found for capturing.'' s, None)
      | v # _ \<Rightarrow>
          (s, Some \<lparr>canvas_height = clientHeight v, canvas_width = clientWidth v, drawn = v\<rparr>))"

definition capture :: "props \<Rightarrow> state \<Rightarrow> state \<times> (js_error + data_url)" where
  "capture p s =
     (case getCanvas s of
        (s', None) \<Rightarrow> (s', Inl ''TypeError'')
      | (s', Some c) \<Rightarrow> (s', Inr (DataURL (screenshotFormat p) c)))"

subsection \<open>joinRoom\<close>

text \<open>The constraints handed to \<^verbatim>\<open>getUserMedia\<close> (lines 127-134); an empty string is falsy.\<close>

definition constraints_of :: "props \<Rightarrow> constraints" where
  "constraints_of p =
     \<lparr>video = (case deviceId p of
                 None \<Rightarrow> VideoFlag (enableVideo p)
               | Some d \<Rightarrow> if d \<noteq> [] \<and> enableVideo p then ExactDevice d else VideoFlag (enableVideo p)),
      audio = enableAudio p\<rparr>"

text \<open>
  \<^verbatim>\<open>joinRoom\<close> up to its \<^verbatim>\<open>await\<close> (lines 97-138): the token guard, \<^verbatim>\<open>io(...)\<close> stored in
  \<^verbatim>\<open>socket.value\<close>, the \<^verbatim>\<open>connect_error\<close> listener, the call of \<^verbatim>\<open>getUserMedia\<close>.
  \<^verbatim>\<open>!props.jwtToken\<close> holds for \<^verbatim>\<open>null\<close> and for the empty string.
\<close>

definition joinRoom :: "props \<Rightarrow> state \<Rightarrow> state" where
  "joinRoom p s =
     (let s1 = log p ''Joining room...'' s in
      case jwtToken p of
        None \<Rightarrow> console_error ''JWT Token is Required'' s1
      | Some tok \<Rightarrow>
          if tok = [] then console_error ''JWT Token is Required'' s1
          else
            let k = length (sockets s1);
                s2 = s1\<lparr>sockets := sockets s1 @
                        [\<lparr>sock_url = socketURL p, sock_auth = tok, sock_id = None,
                          disconnected = False, handlers = [], outbox = []\<rparr>],
                      socket := Some k\<rparr>;
                s3 = sock_on k OnConnectError s2
            in s3\<lparr>gum_calls := gum_calls s3 @ [constraints_of p], joining := joining s3 + 1\<rparr>)"

text \<open>
  The rest of \<^verbatim>\<open>joinRoom\<close>, run when \<^verbatim>\<open>getUserMedia\<close> settles (lines 139-307). An error
  raised by \<^verbatim>\<open>joinedRoom\<close> or by reading \<^verbatim>\<open>socket.value.on\<close> of \<^verbatim>\<open>null\<close> is not caught:
  it rejects the promise of \<^verbatim>\<open>joinRoom\<close> and the lines after it do not run.
\<close>

definition join_resume :: "props \<Rightarrow> globals \<Rightarrow> js_error + media_stream \<Rightarrow> state \<Rightarrow> state" where
  "join_resume p g out s =
     (case out of
        Inl e \<Rightarrow> emit ''media-error'' (Err e) (console_error ''getUserMedia failed:'' s)
      | Inr localStream \<Rightarrow>
          (case joinedRoom g localStream True (log p ''getUserMedia success'' s) of
             (s1, Some e) \<Rightarrow> s1
           | (s1, None) \<Rightarrow>
               (case socket s1 of
                  None \<Rightarrow> s1
                | Some k \<Rightarrow>
                    sock_emit k ''discover'' (Room (roomId p))
                      (sock_on k (OnRequest localStream) (sock_on k (OnDiscover localStream) s1)))))"

subsection \<open>Peer connections\<close>

text \<open>
  The catch blocks of the \<^verbatim>\<open>request\<close> listener (line 223) and of \<^verbatim>\<open>connectToPeer\<close>
  (line 303): one call of \<^verbatim>\<open>console.error\<close>.
\<close>

definition catch_message :: "origin \<Rightarrow> string" where
  "catch_message og =
     (case og of ViaRequest \<Rightarrow> ''Error accepting peer request:''
               | ViaDiscover \<Rightarrow> ''Error connecting to peer:'')"

definition new_conn :: "peer_id \<Rightarrow> origin \<Rightarrow> media_stream \<Rightarrow> conn" where
  "new_conn x og localStream =
     \<lparr>peer = x, origin = og, calls = map AddTrack (tracks localStream) @ [CreateOffer],
      phase = AwaitCreateOffer\<rparr>"

text \<open>
  The \<^verbatim>\<open>request\<close> listener up to its first \<^verbatim>\<open>await\<close> (lines 161-192): a new
  \<^verbatim>\<open>RTCPeerConnection\<close>, the local tracks added, the callbacks set, \<^verbatim>\<open>createOffer\<close>
  called.
\<close>

definition on_request :: "props \<Rightarrow> media_stream \<Rightarrow> peer_id \<Rightarrow> state \<Rightarrow> state" where
  "on_request p localStream x s =
     (let s1 = log p ''request'' s in
      case peerOptions p of
        InvalidConfig \<Rightarrow> console_error (catch_message ViaRequest) s1
      | ValidConfig \<Rightarrow> s1\<lparr>conns := conns s1 @ [new_conn x ViaRequest localStream]\<rparr>)"

text \<open>
  \<^verbatim>\<open>connectToPeer\<close> up to its first \<^verbatim>\<open>await\<close> (lines 228-264). Line 229 is outside the
  \<^verbatim>\<open>try\<close>: with \<^verbatim>\<open>socket.value\<close> null the async function only returns a rejected promise.
  The first \<^verbatim>\<open>ice-candidate\<close> listener is registered before \<^verbatim>\<open>createOffer\<close> is called.
\<close>

definition connectToPeer :: "props \<Rightarrow> media_stream \<Rightarrow> peer_id \<Rightarrow> state \<Rightarrow> state" where
  "connectToPeer p localStream peerID s =
     (case socket s of
        None \<Rightarrow> s
      | Some k \<Rightarrow>
          if Some peerID = sock_id (sockets s ! k) then s
          else
            (let s1 = log p (''Connecting to peer: '' @ peerID) s in
             (case peerOptions p of
                InvalidConfig \<Rightarrow> console_error (catch_message ViaDiscover) s1
              | ValidConfig \<Rightarrow>
                  sock_on k (OnIceCandidate (length (conns s1)) peerID)
                    (s1\<lparr>conns := conns s1 @ [new_conn peerID ViaDiscover localStream]\<rparr>))))"

text \<open>
  The \<^verbatim>\<open>discover\<close> listener (lines 149-159). \<^verbatim>\<open>forEach\<close> reads \<^verbatim>\<open>socket.value.id\<close> for
  every listed peer; with \<^verbatim>\<open>socket.value\<close> null that read raises, the loop stops and
  \<^verbatim>\<open>opened-room\<close> is not emitted.
\<close>

fun discover_each :: "props \<Rightarrow> media_stream \<Rightarrow> peer_id list \<Rightarrow> state \<Rightarrow> state \<times> js_error option" where
  "discover_each p localStream [] s = (s, None)"
| "discover_each p localStream (peerID # rest) s =
     (case socket s of
        None \<Rightarrow> (s, Some ''TypeError'')
      | Some k \<Rightarrow>
          if Some peerID \<noteq> sock_id (sockets s ! k)
          then discover_each p localStream rest (connectToPeer p localStream peerID s)
          else discover_each p localStream rest s)"

definition on_discover :: "props \<Rightarrow> media_stream \<Rightarrow> peer_id list \<Rightarrow> state \<Rightarrow> state \<times> js_error option" where
  "on_discover p localStream peers s =
     (case discover_each p localStream peers (log p ''discovered'' s) of
        (s1, Some e) \<Rightarrow> (s1, Some e)
      | (s1, None) \<Rightarrow> (emit ''opened-room'' (Str (roomId p)) s1, None))"

text \<open>
  The two closures continue alike. When \<^verbatim>\<open>createOffer\<close> settles (lines 192-193,
  264-265): a rejection goes to the catch block, an offer is handed to
  \<^verbatim>\<open>setLocalDescription\<close>.
\<close>

definition fail_conn :: "nat \<Rightarrow> state \<Rightarrow> state" where
  "fail_conn i s = set_phase i Failed (console_error (catch_message (origin (conns s ! i))) s)"

definition offer_settled :: "nat \<Rightarrow> js_error + sdp \<Rightarrow> state \<Rightarrow> state" where
  "offer_settled i out s =
     (if i < length (conns s) \<and> phase (conns s ! i) = AwaitCreateOffer
      then (case out of
              Inl e \<Rightarrow> fail_conn i s
            | Inr offer \<Rightarrow>
                set_phase i (AwaitSetLocalDescription offer) (pc_call i (SetLocalDescription offer) s))
      else s)"

text \<open>
  When \<^verbatim>\<open>setLocalDescription\<close> settles (lines 195-220, 267-300): the \<^verbatim>\<open>offer\<close> is written
  to \<^verbatim>\<open>socket.value\<close>, then the \<^verbatim>\<open>answer\<close> listener and an \<^verbatim>\<open>ice-candidate\<close> listener
  are registered. With \<^verbatim>\<open>socket.value\<close> null the write raises inside the \<^verbatim>\<open>try\<close>.
\<close>

definition local_description_settled :: "nat \<Rightarrow> js_error option \<Rightarrow> state \<Rightarrow> state" where
  "local_description_settled i out s =
     (if i < length (conns s)
      then (case phase (conns s ! i) of
              AwaitSetLocalDescription offer \<Rightarrow>
                (case out of
                   Some e \<Rightarrow> fail_conn i s
                 | None \<Rightarrow>
                     (case socket s of
                        None \<Rightarrow> fail_conn i s
                      | Some k \<Rightarrow>
                          let x = peer (conns s ! i) in
                          set_phase i Negotiated
                            (sock_on k (OnIceCandidate i x)
                              (sock_on k (OnAnswer i x)
                                (sock_emit k ''offer'' (Offer x offer) s)))))
            | _ \<Rightarrow> s)
      else s)"

text \<open>
  The \<^verbatim>\<open>answer\<close> listeners (lines 201-209, 272-280) and the \<^verbatim>\<open>ice-candidate\<close> listeners
  (lines 212-220, 253-261, 282-290). Each awaits the call it makes inside a \<^verbatim>\<open>try\<close>;
  the awaited call is kept in \<open>pending\<close> until it settles. The test of
  \<^verbatim>\<open>data.candidate\<close> is one of truthiness: \<^verbatim>\<open>null\<close> and the empty string are skipped.
\<close>

definition on_answer :: "nat \<Rightarrow> peer_id \<Rightarrow> peer_id \<Rightarrow> sdp \<Rightarrow> state \<Rightarrow> state" where
  "on_answer i x from_id answer s =
     (if from_id = x
      then (pc_call i (SetRemoteDescription answer) s)
             \<lparr>pending := pending s @ [(i, SetRemoteDescription answer)]\<rparr>
      else s)"

definition on_ice_candidate :: "nat \<Rightarrow> peer_id \<Rightarrow> peer_id \<Rightarrow> candidate option \<Rightarrow> state \<Rightarrow> state" where
  "on_ice_candidate i x from_id cand s =
     (case cand of
        None \<Rightarrow> s
      | Some c \<Rightarrow>
          if from_id = x \<and> c \<noteq> []
          then (pc_call i (AddIceCandidate c) s)\<lparr>pending := pending s @ [(i, AddIceCandidate c)]\<rparr>
          else s)"

definition await_message :: "pc_call \<Rightarrow> string" where
  "await_message c =
     (case c of SetRemoteDescription a \<Rightarrow> ''Error setting remote description: ''
              | _ \<Rightarrow> ''Error adding ICE candidate: '')"

definition settled :: "nat \<Rightarrow> js_error option \<Rightarrow> state \<Rightarrow> state" where
  "settled n out s =
     (if n < length (pending s)
      then (let s1 = s\<lparr>pending := take n (pending s) @ drop (Suc n) (pending s)\<rparr> in
            case out of
              None \<Rightarrow> s1
            | Some e \<Rightarrow> console_error (await_message (snd (pending s ! n))) s1)
      else s)"

text \<open>
  The callbacks of a peer connection: \<^verbatim>\<open>ontrack\<close> (lines 171-174, 239-242) and
  \<^verbatim>\<open>onicecandidate\<close> (lines 176-183, 244-251). \<^verbatim>\<open>event.streams[0]\<close> of an empty list is
  \<^verbatim>\<open>undefined\<close>, and reading its \<^verbatim>\<open>id\<close> raises before anything is changed.
  \<^verbatim>\<open>if (event.candidate)\<close> skips \<^verbatim>\<open>null\<close> and the empty string.
\<close>

definition ontrack :: "props \<Rightarrow> globals \<Rightarrow> nat \<Rightarrow> media_stream list \<Rightarrow> state \<Rightarrow> state" where
  "ontrack p g i streams s =
     (if i < length (conns s)
      then (let s1 = log p ''Received remote stream'' s in
            case streams of
              [] \<Rightarrow> s1
            | st # _ \<Rightarrow> fst (joinedRoom g st False s1))
      else s)"

definition onicecandidate :: "nat \<Rightarrow> candidate option \<Rightarrow> state \<Rightarrow> state" where
  "onicecandidate i cand s =
     (if i < length (conns s)
      then (case cand of
              None \<Rightarrow> s
            | Some c \<Rightarrow>
                if c = [] then s
                else (case socket s of
                        None \<Rightarrow> s
                      | Some k \<Rightarrow>
                          sock_emit k ''ice-candidate'' (Candidate (peer (conns s ! i)) c) s))
      else s)"

subsection \<open>Delivery of a socket message\<close>

text \<open>
  A listener runs on the messages of the event it was registered for. The second
  component is the error a listener lets escape; only the \<^verbatim>\<open>discover\<close> listener can.
\<close>

fun run_handler :: "props \<Rightarrow> handler \<Rightarrow> message \<Rightarrow> state \<Rightarrow> state \<times> js_error option" where
  "run_handler p OnConnectError (MConnectError e) s =
     (emit ''socket-error'' (Err e) (console_error ''Socket connection error:'' s), None)"
| "run_handler p (OnDiscover localStream) (MDiscover peers) s = on_discover p localStream peers s"
| "run_handler p (OnRequest localStream) (MRequest x) s = (on_request p localStream x s, None)"
| "run_handler p (OnAnswer i x) (MAnswer from_id answer) s = (on_answer i x from_id answer s, None)"
| "run_handler p (OnIceCandidate i x) (MIceCandidate from_id cand) s =
     (on_ice_candidate i x from_id cand s, None)"
| "run_handler p h m s = (s, None)"

text \<open>The event name each listener is registered under in the script.\<close>

fun event_name :: "handler \<Rightarrow> string" where
  "event_name OnConnectError = ''connect_error''"
| "event_name (OnDiscover localStream) = ''discover''"
| "event_name (OnRequest localStream) = ''request''"
| "event_name (OnAnswer i x) = ''answer''"
| "event_name (OnIceCandidate i x) = ''ice-candidate''"

text \<open>
  socket.io calls the listeners registered when the message arrives, in the order of
  registration, with no \<^verbatim>\<open>try\<close> around them: an escaping error ends the delivery.
\<close>

fun dispatch :: "props \<Rightarrow> message \<Rightarrow> handler list \<Rightarrow> state \<Rightarrow> state" where
  "dispatch p m [] s = s"
| "dispatch p m (h # hs) s =
     (case run_handler p h m s of
        (s1, None) \<Rightarrow> dispatch p m hs s1
      | (s1, Some e) \<Rightarrow> s1)"

definition recv :: "props \<Rightarrow> nat \<Rightarrow> message \<Rightarrow> state \<Rightarrow> state" where
  "recv p k m s =
     (if k < length (sockets s) \<and> \<not> disconnected (sockets s ! k)
      then (case m of
              MConnect new_id \<Rightarrow> s\<lparr>sockets := (sockets s)[k := (sockets s ! k)\<lparr>sock_id := Some new_id\<rparr>]\<rparr>
            | _ \<Rightarrow> dispatch p m (handlers (sockets s ! k)) s)
      else s)"

subsection \<open>Runs\<close>

datatype event =
    CallJoinRoom
  | GumSettled "js_error + media_stream"
  | CallLeaveRoom
  | CallCapture
  | Recv nat message
  | OfferSettled nat "js_error + sdp"
  | LocalDescriptionSettled nat "js_error option"
  | Settled nat "js_error option"
  | Track nat "media_stream list"
  | LocalCandidate nat "candidate option"
  | Tick
  | Rendered "video_element list"

fun step :: "props \<Rightarrow> globals \<Rightarrow> state \<Rightarrow> event \<Rightarrow> state" where
  "step p g s CallJoinRoom = joinRoom p s"
| "step p g s (GumSettled out) =
     (if joining s = 0 then s else join_resume p g out (s\<lparr>joining := joining s - 1\<rparr>))"
| "step p g s CallLeaveRoom = leaveRoom p s"
| "step p g s CallCapture = fst (capture p s)"
| "step p g s (Recv k m) = recv p k m s"
| "step p g s (OfferSettled i out) = offer_settled i out s"
| "step p g s (LocalDescriptionSettled i out) = local_description_settled i out s"
| "step p g s (Settled n out) = settled n out s"
| "step p g s (Track i streams) = ontrack p g i streams s"
| "step p g s (LocalCandidate i cand) = onicecandidate i cand s"
| "step p g s Tick = tick s"
| "step p g s (Rendered els) = s\<lparr>videos := els\<rparr>"

definition run :: "props \<Rightarrow> globals \<Rightarrow> state \<Rightarrow> event list \<Rightarrow> state" where
  "run p g s es = foldl (step p g) s es"

subsection \<open>Concrete inputs\<close>

definition props0 :: props where
  "props0 = \<lparr>roomId = ''abc123'', socketURL = ''https://relay.example'',
     screenshotFormat = ''image/jpeg'', enableAudio = True, enableVideo = True,
     enableLogs = False, peerOptions = ValidConfig, deviceId = None, jwtToken = Some ''tok''\<rparr>"

definition no_token :: props where
  "no_token = props0\<lparr>jwtToken := None\<rparr>"

definition with_nextTick :: globals where
  "with_nextTick = \<lparr>nextTick_bound = True\<rparr>"

definition without_nextTick :: globals where
  "without_nextTick = \<lparr>nextTick_bound = False\<rparr>"

definition camera :: media_stream where
  "camera = \<lparr>stream_id = ''cam'', tracks = [1, 2]\<rparr>"

definition remote :: media_stream where
  "remote = \<lparr>stream_id = ''rem'', tracks = [3]\<rparr>"

definition element0 :: video_element where
  "element0 = \<lparr>element_id = ''cam'', clientHeight = 160, clientWidth = 213, srcObject = None\<rparr>"

text \<open>A join that goes through: the socket opened, the camera granted, the id assigned.\<close>

definition joined :: state where
  "joined = run props0 with_nextTick init
     [CallJoinRoom, GumSettled (Inr camera), Recv 0 (MConnect ''p2'')]"

text \<open>The template rendered once: one element for the camera entry.\<close>

definition rendered :: state where
  "rendered = run props0 with_nextTick joined [Rendered [element0]]"

text \<open>
  A room with one peer: \<^verbatim>\<open>p1\<close> is listed, the offer goes out, the answer comes back and
  is accepted, the remote track arrives.
\<close>

definition connected1 :: state where
  "connected1 = run props0 with_nextTick joined
     [Recv 0 (MDiscover [''p1'']), OfferSettled 0 (Inr ''offer1''),
      LocalDescriptionSettled 0 None, Recv 0 (MAnswer ''p1'' ''answer1''), Settled 0 None,
      Track 0 [remote]]"

text \<open>The same room while \<^verbatim>\<open>setLocalDescription\<close> is still pending for \<^verbatim>\<open>p1\<close>.\<close>

definition offered1 :: state where
  "offered1 = run props0 with_nextTick joined
     [Recv 0 (MDiscover [''p1'']), OfferSettled 0 (Inr ''offer1'')]"

text \<open>The room right after \<^verbatim>\<open>p1\<close> was listed, and while the answer of \<^verbatim>\<open>p1\<close> is being applied.\<close>

definition discovered1 :: state where
  "discovered1 = run props0 with_nextTick joined [Recv 0 (MDiscover [''p1''])]"

definition answering1 :: state where
  "answering1 = run props0 with_nextTick offered1
     [LocalDescriptionSettled 0 None, Recv 0 (MAnswer ''p1'' ''answer1'')]"

definition invalid_options :: props where
  "invalid_options = props0\<lparr>peerOptions := InvalidConfig\<rparr>"

text \<open>The calls of \<^verbatim>\<open>close()\<close> made so far, over all peer connections.\<close>

definition close_calls :: "state \<Rightarrow> pc_call list" where
  "close_calls s = filter (\<lambda>c. c = Close) (concat (map calls (conns s)))"

text \<open>
  One closure run to its end with both promises fulfilled: \<^verbatim>\<open>createOffer\<close> gives
  \<open>offer\<close>, \<^verbatim>\<open>setLocalDescription\<close> succeeds.
\<close>

definition negotiate :: "nat \<Rightarrow> sdp \<Rightarrow> state \<Rightarrow> state" where
  "negotiate i offer s = local_description_settled i None (offer_settled i (Inr offer) s)"


text \<open>
  The events the script hands to \<^verbatim>\<open>emit\<close> outside the unreachable \<^verbatim>\<open>onPeer\<close>, and the
  message names it hands to \<^verbatim>\<open>socket.value.emit\<close>; a state emits (sends) only known names
  when every entry of its event trace (of every outbox) carries one of them.
\<close>

definition known_events :: "string set" where
  "known_events = {''joined-room'', ''opened-room'', ''left-room'', ''media-error'', ''socket-error''}"

definition emits_known :: "state \<Rightarrow> bool" where
  "emits_known s = (\<forall>n\<in>fst ` set (emitted s). n \<in> known_events)"



section \<open>Properties\<close>

subsection \<open>Evaluation of concrete runs\<close>

lemmas helper_defs = log_def console_error_def console_warn_def emit_def sock_on_def
  sock_emit_def pc_call_def set_phase_def

lemmas run_defs = run_def init_def joinRoom_def join_resume_def joinedRoom_def constraints_of_def
  on_request_def connectToPeer_def on_discover_def offer_settled_def fail_conn_def
  local_description_settled_def on_answer_def on_ice_candidate_def settled_def ontrack_def
  onicecandidate_def recv_def leaveRoom_def tick_def getCanvas_def capture_def
  catch_message_def new_conn_def await_message_def negotiate_def helper_defs
  props0_def no_token_def with_nextTick_def without_nextTick_def camera_def remote_def
  element0_def

lemma joined_eq:
  "joined = \<lparr>socket = Some 0,
     sockets = [\<lparr>sock_url = ''https://relay.example'', sock_auth = ''tok'',
       sock_id = Some ''p2'', disconnected = False,
       handlers = [OnConnectError, OnDiscover camera, OnRequest camera],
       outbox = [(''discover'', Room ''abc123'')]\<rparr>],
     videoList = [\<lparr>video_id = ''cam'', muted = True, stream = camera, isLocal = True\<rparr>],
     videos = [], conns = [], joining = 0,
     gum_calls = [\<lparr>video = VideoFlag True, audio = True\<rparr>], pending = [],
     ticks = [camera], emitted = [(''joined-room'', Str ''cam'')], console = [], stopped = []\<rparr>"
  by (simp add: joined_def run_defs Let_def)

lemma rendered_eq: "rendered = joined\<lparr>videos := [element0]\<rparr>"
  by (simp add: rendered_def run_def)

lemma connected1_eq: "connected1 =
  \<lparr>socket = Some 0,
    sockets = [\<lparr>sock_url = ''https://relay.example'', sock_auth = ''tok'',
          sock_id = Some ''p2'', disconnected = False,
          handlers = [OnConnectError, OnDiscover camera, OnRequest camera,
             OnIceCandidate 0 ''p1'', OnAnswer 0 ''p1'', OnIceCandidate 0 ''p1''],
          outbox = [(''discover'', Room ''abc123''), (''offer'', Offer ''p1'' ''offer1'')]\<rparr>],
    videoList = [\<lparr>video_id = ''cam'', muted = True, stream = camera, isLocal = True\<rparr>,
       \<lparr>video_id = ''rem'', muted = False, stream = remote, isLocal = False\<rparr>],
    videos = [],
    conns = [\<lparr>peer = ''p1'', origin = ViaDiscover,
          calls = [AddTrack 1, AddTrack 2, CreateOffer, SetLocalDescription ''offer1'',
             SetRemoteDescription ''answer1''],
          phase = Negotiated\<rparr>],
    joining = 0, gum_calls = [\<lparr>video = VideoFlag True, audio = True\<rparr>], pending = [],
    ticks = [camera, remote],
    emitted = [(''joined-room'', Str ''cam''), (''opened-room'', Str ''abc123''),
       (''joined-room'', Str ''rem'')],
    console = [], stopped = []\<rparr>"
  unfolding connected1_def joined_eq
  by (simp add: run_defs Let_def)

lemma offered1_eq: "offered1 =
  \<lparr>socket = Some 0,
    sockets = [\<lparr>sock_url = ''https://relay.example'', sock_auth = ''tok'',
          sock_id = Some ''p2'', disconnected = False,
          handlers = [OnConnectError, OnDiscover camera, OnRequest camera,
             OnIceCandidate 0 ''p1''],
          outbox = [(''discover'', Room ''abc123'')]\<rparr>],
    videoList = [\<lparr>video_id = ''cam'', muted = True, stream = camera, isLocal = True\<rparr>],
    videos = [],
    conns = [\<lparr>peer = ''p1'', origin = ViaDiscover,
          calls = [AddTrack 1, AddTrack 2, CreateOffer, SetLocalDescription ''offer1''],
          phase = AwaitSetLocalDescription ''offer1''\<rparr>],
    joining = 0, gum_calls = [\<lparr>video = VideoFlag True, audio = True\<rparr>], pending = [],
    ticks = [camera],
    emitted = [(''joined-room'', Str ''cam''), (''opened-room'', Str ''abc123'')],
    console = [], stopped = []\<rparr>"
  unfolding offered1_def joined_eq
  by (simp add: run_defs Let_def)

lemma discovered1_eq: "discovered1 =
  \<lparr>socket = Some 0,
    sockets = [\<lparr>sock_url = ''https://relay.example'', sock_auth = ''tok'',
          sock_id = Some ''p2'', disconnected = False,
          handlers = [OnConnectError, OnDiscover camera, OnRequest camera,
             OnIceCandidate 0 ''p1''],
          outbox = [(''discover'', Room ''abc123'')]\<rparr>],
    videoList = [\<lparr>video_id = ''cam'', muted = True, stream = camera, isLocal = True\<rparr>],
    videos = [],
    conns = [\<lparr>peer = ''p1'', origin = ViaDiscover,
          calls = [AddTrack 1, AddTrack 2, CreateOffer], phase = AwaitCreateOffer\<rparr>],
    joining = 0, gum_calls = [\<lparr>video = VideoFlag True, audio = True\<rparr>], pending = [],
    ticks = [camera],
    emitted = [(''joined-room'', Str ''cam''), (''opened-room'', Str ''abc123'')],
    console = [], stopped = []\<rparr>"
  unfolding discovered1_def joined_eq
  by (simp add: run_defs Let_def)

lemma answering1_eq: "answering1 =
  \<lparr>socket = Some 0,
    sockets = [\<lparr>sock_url = ''https://relay.example'', sock_auth = ''tok'',
          sock_id = Some ''p2'', disconnected = False,
          handlers = [OnConnectError, OnDiscover camera, OnRequest camera,
             OnIceCandidate 0 ''p1'', OnAnswer 0 ''p1'', OnIceCandidate 0 ''p1''],
          outbox = [(''discover'', Room ''abc123''), (''offer'', Offer ''p1'' ''offer1'')]\<rparr>],
    videoList = [\<lparr>video_id = ''cam'', muted = True, stream = camera, isLocal = True\<rparr>],
    videos = [],
    conns = [\<lparr>peer = ''p1'', origin = ViaDiscover,
          calls = [AddTrack 1, AddTrack 2, CreateOffer, SetLocalDescription ''offer1'',
             SetRemoteDescription ''answer1''],
          phase = Negotiated\<rparr>],
    joining = 0, gum_calls = [\<lparr>video = VideoFlag True, audio = True\<rparr>],
    pending = [(0, SetRemoteDescription ''answer1'')],
    ticks = [camera],
    emitted = [(''joined-room'', Str ''cam''), (''opened-room'', Str ''abc123'')],
    console = [], stopped = []\<rparr>"
  unfolding answering1_def offered1_eq
  by (simp add: run_defs Let_def)

subsection \<open>The stream registry\<close>

lemma find_video_None:
  "(find (\<lambda>v. video_id v = a) vs = None) = (a \<notin> video_id ` set vs)"
  by (induction vs) auto

lemma videoList_joinedRoom:
  "videoList (fst (joinedRoom g st loc s)) =
     (if stream_id st \<in> video_id ` set (videoList s) then videoList s
      else videoList s @ [\<lparr>video_id = stream_id st, muted = loc, stream = st, isLocal = loc\<rparr>])"
  by (simp add: joinedRoom_def Let_def emit_def find_video_None)

text \<open>
  Claim C8. Adding to the registry is idempotent: \<^verbatim>\<open>joinedRoom\<close> leaves \<^verbatim>\<open>videoList\<close> as
  it is when an entry with the stream's identifier is present; a second call with the same
  identifier changes nothing; and after two calls with an identifier that was absent the
  list holds exactly one entry with it.
\<close>

theorem joinedRoom_add_idempotent:
  "(stream_id st \<in> video_id ` set (videoList s) \<longrightarrow>
      videoList (fst (joinedRoom g st loc s)) = videoList s) \<and>
   (stream_id st' = stream_id st \<longrightarrow>
      videoList (fst (joinedRoom g st' loc' (fst (joinedRoom g st loc s)))) =
      videoList (fst (joinedRoom g st loc s))) \<and>
   (stream_id st' = stream_id st \<and> stream_id st \<notin> video_id ` set (videoList s) \<longrightarrow>
      length (filter (\<lambda>v. video_id v = stream_id st)
        (videoList (fst (joinedRoom g st' loc' (fst (joinedRoom g st loc s)))))) = 1)"
proof (intro conjI impI)
  assume "stream_id st \<in> video_id ` set (videoList s)"
  then show "videoList (fst (joinedRoom g st loc s)) = videoList s"
    by (simp add: videoList_joinedRoom)
next
  assume same: "stream_id st' = stream_id st"
  have "stream_id st \<in> video_id ` set (videoList (fst (joinedRoom g st loc s)))"
    by (simp add: videoList_joinedRoom)
  with same show "videoList (fst (joinedRoom g st' loc' (fst (joinedRoom g st loc s)))) =
      videoList (fst (joinedRoom g st loc s))"
    by (simp add: videoList_joinedRoom[of g st'])
next
  assume h: "stream_id st' = stream_id st \<and> stream_id st \<notin> video_id ` set (videoList s)"
  have present: "stream_id st \<in> video_id ` set (videoList (fst (joinedRoom g st loc s)))"
    by (simp add: videoList_joinedRoom)
  have twice: "videoList (fst (joinedRoom g st' loc' (fst (joinedRoom g st loc s)))) =
      videoList (fst (joinedRoom g st loc s))"
    using h present by (simp add: videoList_joinedRoom[of g st'])
  have none: "filter (\<lambda>v. video_id v = stream_id st) (videoList s) = []"
    using h by (force simp: filter_empty_conv image_iff)
  show "length (filter (\<lambda>v. video_id v = stream_id st)
        (videoList (fst (joinedRoom g st' loc' (fst (joinedRoom g st loc s)))))) = 1"
    using h none by (simp add: twice videoList_joinedRoom[of g st])
qed

theorem joinedRoom_add_idempotent_witness:
  "stream_id camera \<in> video_id ` set (videoList joined) \<and>
   videoList (fst (joinedRoom without_nextTick camera False joined)) = videoList joined \<and>
   stream_id camera = stream_id camera \<and>
   stream_id camera \<notin> video_id ` set (videoList init) \<and>
   videoList (fst (joinedRoom without_nextTick camera False
      (fst (joinedRoom without_nextTick camera True init)))) =
     [\<lparr>video_id = ''cam'', muted = True, stream = camera, isLocal = True\<rparr>] \<and>
   length (filter (\<lambda>v. video_id v = stream_id camera)
     (videoList (fst (joinedRoom without_nextTick camera False
        (fst (joinedRoom without_nextTick camera True init)))))) = 1"
  using joinedRoom_add_idempotent
          [where st = camera and st' = camera and s = joined and g = without_nextTick
             and loc = False]
        joinedRoom_add_idempotent
          [where st = camera and st' = camera and s = init and g = without_nextTick
             and loc = True and loc' = False]
  by (simp add: joined_eq videoList_joinedRoom init_def camera_def)

text \<open>
  Claim C9, at the failing input. The first registration of the camera stream, with
  \<^verbatim>\<open>nextTick\<close> unbound as the imports of the script leave it: the entry is pushed, the call
  of \<^verbatim>\<open>nextTick\<close> raises, and \<^verbatim>\<open>joined-room\<close> is not emitted.
\<close>

theorem joinedRoom_ReferenceError:
  "joinedRoom without_nextTick camera True init =
     (init\<lparr>videoList := [\<lparr>video_id = ''cam'', muted = True, stream = camera, isLocal = True\<rparr>]\<rparr>,
      Some ''ReferenceError'') \<and>
   emitted (fst (joinedRoom without_nextTick camera True init)) = []"
  by (simp add: joinedRoom_def without_nextTick_def init_def camera_def)

text \<open>Where \<^verbatim>\<open>nextTick\<close> is bound, every call emits \<^verbatim>\<open>joined-room\<close> once, duplicate or not.\<close>

lemma joinedRoom_emits_once_when_bound:
  "nextTick_bound g \<Longrightarrow>
   emitted (fst (joinedRoom g st loc s)) = emitted s @ [(''joined-room'', Str (stream_id st))] \<and>
   snd (joinedRoom g st loc s) = None"
  by (simp add: joinedRoom_def Let_def emit_def)

text \<open>
  Where it is unbound the error also ends \<^verbatim>\<open>joinRoom\<close> at line 146: the camera entry is
  in the registry, but no listener other than \<^verbatim>\<open>connect_error\<close> is registered and
  \<^verbatim>\<open>discover\<close> is not sent.
\<close>

lemma join_without_nextTick:
  "run props0 without_nextTick init [CallJoinRoom, GumSettled (Inr camera)] =
     init\<lparr>socket := Some 0,
          sockets := [\<lparr>sock_url = ''https://relay.example'', sock_auth = ''tok'', sock_id = None,
             disconnected = False, handlers = [OnConnectError], outbox = []\<rparr>],
          videoList := [\<lparr>video_id = ''cam'', muted = True, stream = camera, isLocal = True\<rparr>],
          gum_calls := [\<lparr>video = VideoFlag True, audio = True\<rparr>]\<rparr>"
  by (simp add: run_defs Let_def)

subsection \<open>Screenshots\<close>

text \<open>
  Claim C10. With no video element \<^verbatim>\<open>getCanvas\<close> warns and returns \<^verbatim>\<open>null\<close>, and
  \<^verbatim>\<open>capture\<close> raises on it; with at least one element \<^verbatim>\<open>capture\<close> returns what
  \<^verbatim>\<open>toDataURL\<close> gives for the configured screenshot format, on a canvas of the first
  element's size.
\<close>

theorem capture_result:
  "(videos s = [] \<longrightarrow>
      getCanvas s = (console_warn ''No video element found for capturing.'' s, None) \<and>
      capture p s = (console_warn ''No video element found for capturing.'' s, Inl ''TypeError'')) \<and>
   (\<forall>v vs. videos s = v # vs \<longrightarrow>
      capture p s = (s, Inr (DataURL (screenshotFormat p)
         \<lparr>canvas_height = clientHeight v, canvas_width = clientWidth v, drawn = v\<rparr>)))"
  by (simp add: capture_def getCanvas_def)

theorem capture_result_witness:
  "videos init = [] \<and>
   snd (getCanvas init) = None \<and>
   console (fst (getCanvas init)) = [(WarnLevel, ''No video element found for capturing.'')] \<and>
   snd (capture props0 init) = Inl ''TypeError'' \<and>
   videos rendered = [element0] \<and>
   capture props0 rendered = (rendered, Inr (DataURL ''image/jpeg''
      \<lparr>canvas_height = 160, canvas_width = 213, drawn = element0\<rparr>))"
  using capture_result [of init props0] capture_result [of rendered props0]
  by (simp add: rendered_eq init_def console_warn_def props0_def element0_def)

subsection \<open>Joining without a token\<close>

text \<open>
  Claim C3, as amended. With no token configured (\<^verbatim>\<open>null\<close> or the empty string)
  \<^verbatim>\<open>joinRoom\<close> opens no socket, asks for no media, leaves no continuation pending and
  emits no event: it writes \<^verbatim>\<open>JWT Token is Required\<close> to the error console and returns.
\<close>

theorem joinRoom_without_token:
  "jwtToken p = None \<or> jwtToken p = Some [] \<Longrightarrow>
     joinRoom p s = console_error ''JWT Token is Required'' (log p ''Joining room...'' s) \<and>
     sockets (joinRoom p s) = sockets s \<and> socket (joinRoom p s) = socket s \<and>
     gum_calls (joinRoom p s) = gum_calls s \<and> joining (joinRoom p s) = joining s \<and>
     emitted (joinRoom p s) = emitted s"
  by (auto simp: joinRoom_def Let_def console_error_def log_def)

theorem joinRoom_without_token_witness:
  "(jwtToken no_token = None \<or> jwtToken no_token = Some []) \<and>
   joinRoom no_token init = init\<lparr>console := [(ErrorLevel, ''JWT Token is Required'')]\<rparr> \<and>
   sockets (joinRoom no_token init) = []"
  using joinRoom_without_token [of no_token init]
  by (simp add: no_token_def props0_def init_def console_error_def log_def)

text \<open>
  Claim C3 as stated fails: the join without a token surfaces nothing to the caller. No
  event is emitted; the only trace is the line on the error console.
\<close>

theorem joinRoom_without_token_counterexample:
  "emitted (run no_token with_nextTick init [CallJoinRoom]) = [] \<and>
   console (run no_token with_nextTick init [CallJoinRoom]) =
     [(ErrorLevel, ''JWT Token is Required'')]"
  by (simp add: run_defs)

subsection \<open>Leaving the room\<close>

text \<open>
  Claim C5, as amended. \<^verbatim>\<open>leaveRoom\<close> stops every track of every stream in the registry,
  local and remote; empties the registry; disconnects the socket held in \<^verbatim>\<open>socket.value\<close>,
  if any, and clears the ref; emits \<^verbatim>\<open>left-room\<close> with the room id; and makes no call on
  any peer connection, so none is closed.
\<close>

theorem leaveRoom_effects:
  "stopped (leaveRoom p s) = stopped s @ concat (map (\<lambda>v. tracks (stream v)) (videoList s)) \<and>
   videoList (leaveRoom p s) = [] \<and>
   socket (leaveRoom p s) = None \<and>
   (\<forall>k. socket s = Some k \<and> k < length (sockets s) \<longrightarrow>
      disconnected (sockets (leaveRoom p s) ! k)) \<and>
   (socket s = None \<longrightarrow> sockets (leaveRoom p s) = sockets s) \<and>
   conns (leaveRoom p s) = conns s \<and>
   emitted (leaveRoom p s) = emitted s @ [(''left-room'', Str (roomId p))]"
  by (auto simp: leaveRoom_def Let_def log_def emit_def split: option.splits)

theorem leaveRoom_effects_witness:
  "socket connected1 = Some 0 \<and> 0 < length (sockets connected1) \<and>
   stopped (leaveRoom props0 connected1) = [1, 2, 3] \<and>
   videoList (leaveRoom props0 connected1) = [] \<and>
   socket (leaveRoom props0 connected1) = None \<and>
   disconnected (sockets (leaveRoom props0 connected1) ! 0) \<and>
   socket init = None \<and> sockets (leaveRoom props0 init) = [] \<and>
   conns (leaveRoom props0 connected1) = conns connected1 \<and>
   emitted (leaveRoom props0 connected1) =
     emitted connected1 @ [(''left-room'', Str ''abc123'')]"
  using leaveRoom_effects [of props0 connected1] leaveRoom_effects [of props0 init]
  by (simp add: connected1_eq init_def camera_def remote_def props0_def)

text \<open>
  Claim C5 as stated fails: with one peer connection negotiated and its remote stream
  playing, leaving the room makes no \<^verbatim>\<open>close()\<close> call at all, where the claim counts one.
\<close>

theorem leaveRoom_close_counterexample:
  "length (conns connected1) = 1 \<and>
   close_calls connected1 = [] \<and>
   close_calls (run props0 with_nextTick connected1 [CallLeaveRoom]) = []"
  by (simp add: connected1_eq close_calls_def run_def leaveRoom_def Let_def log_def emit_def)

subsection \<open>What a delivered message does\<close>

text \<open>
  \<^verbatim>\<open>connectToPeer\<close> on a live socket with a well-formed configuration, and the loop of
  the \<^verbatim>\<open>discover\<close> listener as a fold over the listed peers other than self.
\<close>

lemma connectToPeer_valid:
  assumes "socket s = Some k" "peerOptions p = ValidConfig" "Some x \<noteq> sock_id (sockets s ! k)"
  shows "connectToPeer p ls x s =
     sock_on k (OnIceCandidate (length (conns s)) x)
       ((log p (''Connecting to peer: '' @ x) s)\<lparr>conns := conns s @ [new_conn x ViaDiscover ls]\<rparr>)"
  using assms by (simp add: connectToPeer_def Let_def log_def)

lemma connectToPeer_frame:
  assumes "socket s = Some k" "k < length (sockets s)" "peerOptions p = ValidConfig"
    "Some x \<noteq> sock_id (sockets s ! k)"
  shows "socket (connectToPeer p ls x s) = Some k"
    and "length (sockets (connectToPeer p ls x s)) = length (sockets s)"
    and "sock_id (sockets (connectToPeer p ls x s) ! k) = sock_id (sockets s ! k)"
    and "outbox (sockets (connectToPeer p ls x s) ! k) = outbox (sockets s ! k)"
    and "conns (connectToPeer p ls x s) = conns s @ [new_conn x ViaDiscover ls]"
    and "emitted (connectToPeer p ls x s) = emitted s"
  using assms by (simp_all add: connectToPeer_valid sock_on_def log_def)

lemma fold_connectToPeer:
  assumes "socket s = Some k" "k < length (sockets s)" "peerOptions p = ValidConfig"
    "\<forall>x\<in>set xs. Some x \<noteq> sock_id (sockets s ! k)"
  shows "socket (fold (connectToPeer p ls) xs s) = Some k \<and>
     length (sockets (fold (connectToPeer p ls) xs s)) = length (sockets s) \<and>
     sock_id (sockets (fold (connectToPeer p ls) xs s) ! k) = sock_id (sockets s ! k) \<and>
     outbox (sockets (fold (connectToPeer p ls) xs s) ! k) = outbox (sockets s ! k) \<and>
     conns (fold (connectToPeer p ls) xs s) = conns s @ map (\<lambda>x. new_conn x ViaDiscover ls) xs \<and>
     emitted (fold (connectToPeer p ls) xs s) = emitted s"
  using assms
proof (induction xs arbitrary: s)
  case Nil
  then show ?case by simp
next
  case (Cons x xs)
  have x: "Some x \<noteq> sock_id (sockets s ! k)" using Cons.prems by simp
  note fr = connectToPeer_frame[OF Cons.prems(1) Cons.prems(2) Cons.prems(3) x, of ls]
  have "\<forall>y\<in>set xs. Some y \<noteq> sock_id (sockets (connectToPeer p ls x s) ! k)"
    using Cons.prems(4) fr(3) by simp
  from Cons.IH[OF fr(1) _ Cons.prems(3) this] fr Cons.prems(2)
  show ?case by simp
qed

lemma discover_each_fold:
  assumes "socket s = Some k" "k < length (sockets s)" "peerOptions p = ValidConfig"
  shows "discover_each p ls ps s =
     (fold (connectToPeer p ls) (filter (\<lambda>x. Some x \<noteq> sock_id (sockets s ! k)) ps) s, None)"
  using assms
proof (induction ps arbitrary: s)
  case Nil
  then show ?case by simp
next
  case (Cons x ps)
  show ?case
  proof (cases "Some x \<noteq> sock_id (sockets s ! k)")
    case True
    note fr = connectToPeer_frame[OF Cons.prems(1) Cons.prems(2) Cons.prems(3) True, of ls]
    from Cons.IH[OF fr(1) _ Cons.prems(3)] fr True Cons.prems(1) Cons.prems(2)
    show ?thesis by simp
  next
    case False
    with Cons.IH[OF Cons.prems] Cons.prems(1) show ?thesis by simp
  qed
qed

lemma dispatch_discover_none:
  "\<forall>h\<in>set hs. event_name h \<noteq> ''discover'' \<Longrightarrow> dispatch p (MDiscover ps) hs s = s"
proof (induction hs)
  case Nil
  then show ?case by simp
next
  case (Cons h hs)
  then show ?case by (cases h) simp_all
qed

lemma dispatch_discover_one:
  "filter (\<lambda>h. event_name h = ''discover'') hs = [OnDiscover ls] \<Longrightarrow>
   dispatch p (MDiscover ps) hs s = fst (on_discover p ls ps s)"
proof (induction hs)
  case Nil
  then show ?case by simp
next
  case (Cons h hs)
  show ?case
  proof (cases "event_name h = ''discover''")
    case True
    with Cons.prems have h: "h = OnDiscover ls"
      and rest: "filter (\<lambda>h. event_name h = ''discover'') hs = []" by simp_all
    from rest have "\<forall>h\<in>set hs. event_name h \<noteq> ''discover''"
      by (simp add: filter_empty_conv)
    then show ?thesis using h
      by (simp add: dispatch_discover_none split: prod.splits option.splits)
  next
    case False
    with Cons.prems have "filter (\<lambda>h. event_name h = ''discover'') hs = [OnDiscover ls]" by simp
    from Cons.IH[OF this] False show ?thesis by (cases h) simp_all
  qed
qed

lemma dispatch_request_none:
  "\<forall>h\<in>set hs. event_name h \<noteq> ''request'' \<Longrightarrow> dispatch p (MRequest x) hs s = s"
proof (induction hs)
  case Nil
  then show ?case by simp
next
  case (Cons h hs)
  then show ?case by (cases h) simp_all
qed

lemma dispatch_request_one:
  "filter (\<lambda>h. event_name h = ''request'') hs = [OnRequest ls] \<Longrightarrow>
   dispatch p (MRequest x) hs s = on_request p ls x s"
proof (induction hs)
  case Nil
  then show ?case by simp
next
  case (Cons h hs)
  show ?case
  proof (cases "event_name h = ''request''")
    case True
    with Cons.prems have h: "h = OnRequest ls"
      and rest: "filter (\<lambda>h. event_name h = ''request'') hs = []" by simp_all
    from rest have "\<forall>h\<in>set hs. event_name h \<noteq> ''request''"
      by (simp add: filter_empty_conv)
    then show ?thesis using h by (simp add: dispatch_request_none)
  next
    case False
    with Cons.prems have "filter (\<lambda>h. event_name h = ''request'') hs = [OnRequest ls]" by simp
    from Cons.IH[OF this] False show ?thesis by (cases h) simp_all
  qed
qed



lemma negotiated_is_final:
  "i < length (conns t) \<Longrightarrow> phase (conns t ! i) = Negotiated \<Longrightarrow>
   offer_settled i out t = t \<and> local_description_settled i out' t = t"
  by (simp add: offer_settled_def local_description_settled_def)

lemma recv_discover:
  assumes "socket s = Some k" "k < length (sockets s)" "\<not> disconnected (sockets s ! k)"
    "filter (\<lambda>h. event_name h = ''discover'') (handlers (sockets s ! k)) = [OnDiscover ls]"
    "peerOptions p = ValidConfig"
  shows "recv p k (MDiscover ps) s =
     emit ''opened-room'' (Str (roomId p))
       (fold (connectToPeer p ls) (filter (\<lambda>x. Some x \<noteq> sock_id (sockets s ! k)) ps)
          (log p ''discovered'' s))"
proof -
  have "socket (log p ''discovered'' s) = Some k" "k < length (sockets (log p ''discovered'' s))"
    "sockets (log p ''discovered'' s) = sockets s"
    using assms by (simp_all add: log_def)
  from discover_each_fold[OF this(1) this(2) assms(5), of ls ps] this(3)
  show ?thesis using assms(2,3,4)
    by (simp add: recv_def dispatch_discover_one on_discover_def)
qed

lemma recv_request:
  assumes "k < length (sockets s)" "\<not> disconnected (sockets s ! k)"
    "filter (\<lambda>h. event_name h = ''request'') (handlers (sockets s ! k)) = [OnRequest ls]"
  shows "recv p k (MRequest x) s = on_request p ls x s"
  using assms by (simp add: recv_def dispatch_request_one)

lemma recv_discover_frame:
  assumes "socket s = Some k" "k < length (sockets s)" "\<not> disconnected (sockets s ! k)"
    "filter (\<lambda>h. event_name h = ''discover'') (handlers (sockets s ! k)) = [OnDiscover ls]"
    "peerOptions p = ValidConfig"
  shows "socket (recv p k (MDiscover ps) s) = Some k"
    and "length (sockets (recv p k (MDiscover ps) s)) = length (sockets s)"
    and "outbox (sockets (recv p k (MDiscover ps) s) ! k) = outbox (sockets s ! k)"
    and "conns (recv p k (MDiscover ps) s) =
       conns s @ map (\<lambda>x. new_conn x ViaDiscover ls)
                   (filter (\<lambda>x. Some x \<noteq> sock_id (sockets s ! k)) ps)"
proof -
  let ?s0 = "log p ''discovered'' s"
  let ?xs = "filter (\<lambda>x. Some x \<noteq> sock_id (sockets s ! k)) ps"
  have s0: "socket ?s0 = Some k" "k < length (sockets ?s0)" "sockets ?s0 = sockets s"
    "conns ?s0 = conns s"
    using assms by (simp_all add: log_def)
  have "\<forall>x\<in>set ?xs. Some x \<noteq> sock_id (sockets ?s0 ! k)" by (simp add: s0)
  note f = fold_connectToPeer[OF s0(1) s0(2) assms(5) this, of ls]
  show "socket (recv p k (MDiscover ps) s) = Some k"
    and "length (sockets (recv p k (MDiscover ps) s)) = length (sockets s)"
    and "outbox (sockets (recv p k (MDiscover ps) s) ! k) = outbox (sockets s ! k)"
    and "conns (recv p k (MDiscover ps) s) = conns s @ map (\<lambda>x. new_conn x ViaDiscover ls) ?xs"
    using f by (simp_all add: recv_discover[OF assms] emit_def s0)
qed


lemma on_request_valid:
  "peerOptions p = ValidConfig \<Longrightarrow>
   on_request p ls x s = (log p ''request'' s)\<lparr>conns := conns s @ [new_conn x ViaRequest ls]\<rparr>"
  by (simp add: on_request_def Let_def log_def)

subsection \<open>Names of emitted events and of sent messages\<close>

text \<open>
  Every step appends only known event names to the trace of \<^verbatim>\<open>emit\<close>, so no run
  emits \<^verbatim>\<open>peer-error\<close>.
\<close>

lemma emits_known_same: "emitted t = emitted s \<Longrightarrow> emits_known s \<Longrightarrow> emits_known t"
  by (simp add: emits_known_def)

lemma emits_known_emit:
  "n \<in> known_events \<Longrightarrow> emits_known s \<Longrightarrow> emits_known (emit n a s)"
  by (simp add: emits_known_def emit_def)

lemma emitted_simps:
  "emitted (log p m s) = emitted s"
  "emitted (console_error m s) = emitted s"
  "emitted (console_warn m s) = emitted s"
  "emitted (sock_on k h s) = emitted s"
  "emitted (sock_emit k n pl s) = emitted s"
  "emitted (pc_call i c s) = emitted s"
  "emitted (set_phase i ph s) = emitted s"
  by (simp_all add: helper_defs)

lemma emitted_joinRoom: "emitted (joinRoom p s) = emitted s"
  by (simp add: joinRoom_def Let_def emitted_simps split: option.splits)

lemma emits_known_joinedRoom: "emits_known s \<Longrightarrow> emits_known (fst (joinedRoom g st loc s))"
  by (simp add: joinedRoom_def Let_def emits_known_def emit_def known_events_def)

lemma emits_known_join_resume: "emits_known s \<Longrightarrow> emits_known (join_resume p g out s)"
proof (cases out)
  case (Inl e)
  assume "emits_known s"
  then show ?thesis using Inl
    by (simp add: join_resume_def emits_known_def emit_def console_error_def known_events_def)
next
  case (Inr ls)
  assume "emits_known s"
  then have "emits_known (log p ''getUserMedia success'' s)"
    by (rule emits_known_same[rotated]) (simp add: emitted_simps)
  then have k: "emits_known (fst (joinedRoom g ls True (log p ''getUserMedia success'' s)))"
    by (rule emits_known_joinedRoom)
  show ?thesis
  proof (cases "joinedRoom g ls True (log p ''getUserMedia success'' s)")
    case (Pair s1 r)
    with k have "emits_known s1" by simp
    then show ?thesis using Inr Pair
      by (auto simp: join_resume_def emits_known_def emitted_simps split: option.splits)
  qed
qed

lemma emits_known_leaveRoom: "emits_known s \<Longrightarrow> emits_known (leaveRoom p s)"
  by (auto simp: leaveRoom_def Let_def emits_known_def emit_def log_def known_events_def
        split: option.splits)

lemma emitted_capture: "emitted (fst (capture p s)) = emitted s"
  by (simp add: capture_def getCanvas_def emitted_simps split: list.splits)

lemma emitted_connectToPeer: "emitted (connectToPeer p ls x s) = emitted s"
  by (simp add: connectToPeer_def Let_def emitted_simps split: option.splits rtc_config.splits)

lemma emitted_discover_each: "emitted (fst (discover_each p ls ps s)) = emitted s"
  by (induction ps arbitrary: s) (simp_all add: emitted_connectToPeer split: option.splits)

lemma emits_known_on_discover: "emits_known s \<Longrightarrow> emits_known (fst (on_discover p ls ps s))"
proof -
  assume k: "emits_known s"
  obtain s1 r where d: "discover_each p ls ps (log p ''discovered'' s) = (s1, r)"
    by (cases "discover_each p ls ps (log p ''discovered'' s)")
  have "emitted s1 = emitted s"
    using emitted_discover_each[of p ls ps "log p ''discovered'' s"] d by (simp add: emitted_simps)
  then have "emits_known s1" using k by (rule emits_known_same)
  then show ?thesis using d
    by (cases r) (simp_all add: on_discover_def emits_known_emit known_events_def)
qed

lemma emitted_on_request: "emitted (on_request p ls x s) = emitted s"
  by (simp add: on_request_def Let_def emitted_simps split: rtc_config.splits)

lemma emitted_on_answer: "emitted (on_answer i x f a s) = emitted s"
  by (simp add: on_answer_def emitted_simps)

lemma emitted_on_ice_candidate: "emitted (on_ice_candidate i x f c s) = emitted s"
  by (simp add: on_ice_candidate_def emitted_simps split: option.splits)

lemma emits_known_run_handler: "emits_known s \<Longrightarrow> emits_known (fst (run_handler p h m s))"
proof (induction p h m s rule: run_handler.induct)
  case (1 p e s)
  then show ?case
    by (simp add: emits_known_def emit_def console_error_def known_events_def)
next
  case (2 p localStream peers s)
  then show ?case by (simp add: emits_known_on_discover)
next
  case (3 p localStream x s)
  then show ?case by (simp add: emits_known_def emitted_on_request)
next
  case (4 p i x from_id answer s)
  then show ?case by (simp add: emits_known_def emitted_on_answer)
next
  case (5 p i x from_id cand s)
  then show ?case by (simp add: emits_known_def emitted_on_ice_candidate)
qed simp_all

lemma emits_known_dispatch: "emits_known s \<Longrightarrow> emits_known (dispatch p m hs s)"
proof (induction hs arbitrary: s)
  case Nil
  then show ?case by simp
next
  case (Cons h hs)
  from Cons.prems have k: "emits_known (fst (run_handler p h m s))"
    by (rule emits_known_run_handler)
  show ?case
  proof (cases "run_handler p h m s")
    case (Pair s1 r)
    with k have "emits_known s1" by simp
    with Pair Cons.IH[of s1] show ?thesis by (cases r) simp_all
  qed
qed

lemma emits_known_recv: "emits_known s \<Longrightarrow> emits_known (recv p k m s)"
  by (cases m) (simp_all add: recv_def emits_known_dispatch, simp add: emits_known_def)

lemma emitted_offer_settled: "emitted (offer_settled i out s) = emitted s"
  by (simp add: offer_settled_def fail_conn_def emitted_simps split: sum.splits)

lemma emitted_local_description_settled: "emitted (local_description_settled i out s) = emitted s"
  by (simp add: local_description_settled_def fail_conn_def Let_def emitted_simps
        split: phase.splits option.splits)

lemma emitted_settled: "emitted (settled n out s) = emitted s"
  by (simp add: settled_def Let_def emitted_simps split: option.splits)

lemma emits_known_ontrack: "emits_known s \<Longrightarrow> emits_known (ontrack p g i streams s)"
proof (cases streams)
  case Nil
  assume "emits_known s"
  then show ?thesis using Nil by (simp add: ontrack_def Let_def emits_known_def emitted_simps)
next
  case (Cons st rest)
  assume "emits_known s"
  then have "emits_known (log p ''Received remote stream'' s)"
    by (rule emits_known_same[rotated]) (simp add: emitted_simps)
  then have "emits_known (fst (joinedRoom g st False (log p ''Received remote stream'' s)))"
    by (rule emits_known_joinedRoom)
  then show ?thesis using Cons \<open>emits_known s\<close> by (simp add: ontrack_def Let_def)
qed

lemma emitted_onicecandidate: "emitted (onicecandidate i c s) = emitted s"
  by (simp add: onicecandidate_def emitted_simps split: option.splits)

lemma emitted_tick: "emitted (tick s) = emitted s"
  by (simp add: tick_def split: list.splits)

lemma emits_known_step: "emits_known s \<Longrightarrow> emits_known (step p g s e)"
proof (cases e)
  case CallJoinRoom
  assume "emits_known s" then show ?thesis using CallJoinRoom
    by (simp add: emits_known_def emitted_joinRoom)
next
  case (GumSettled out)
  assume k: "emits_known s"
  then have "emits_known (s\<lparr>joining := joining s - 1\<rparr>)" by (simp add: emits_known_def)
  then have "emits_known (join_resume p g out (s\<lparr>joining := joining s - 1\<rparr>))"
    by (rule emits_known_join_resume)
  then show ?thesis using GumSettled k by simp
next
  case CallLeaveRoom
  assume "emits_known s" then show ?thesis using CallLeaveRoom by (simp add: emits_known_leaveRoom)
next
  case CallCapture
  assume "emits_known s" then show ?thesis using CallCapture
    by (simp add: emits_known_def emitted_capture)
next
  case (Recv k m)
  assume "emits_known s" then show ?thesis using Recv by (simp add: emits_known_recv)
next
  case (OfferSettled i out)
  assume "emits_known s" then show ?thesis using OfferSettled
    by (simp add: emits_known_def emitted_offer_settled)
next
  case (LocalDescriptionSettled i out)
  assume "emits_known s" then show ?thesis using LocalDescriptionSettled
    by (simp add: emits_known_def emitted_local_description_settled)
next
  case (Settled n out)
  assume "emits_known s" then show ?thesis using Settled
    by (simp add: emits_known_def emitted_settled)
next
  case (Track i streams)
  assume "emits_known s" then show ?thesis using Track by (simp add: emits_known_ontrack)
next
  case (LocalCandidate i c)
  assume "emits_known s" then show ?thesis using LocalCandidate
    by (simp add: emits_known_def emitted_onicecandidate)
next
  case Tick
  assume "emits_known s" then show ?thesis using Tick by (simp add: emits_known_def emitted_tick)
next
  case (Rendered els)
  assume "emits_known s" then show ?thesis using Rendered by (simp add: emits_known_def)
qed

lemma emits_known_run: "emits_known s \<Longrightarrow> emits_known (run p g s es)"
  unfolding run_def
  by (induction es arbitrary: s) (simp_all add: emits_known_step)

lemma peer_error_never_emitted:
  "(''peer-error'', a) \<notin> set (emitted (run p g init es))"
proof
  assume "(''peer-error'', a) \<in> set (emitted (run p g init es))"
  then have "''peer-error'' \<in> fst ` set (emitted (run p g init es))" by force
  moreover have "emits_known (run p g init es)"
    by (rule emits_known_run) (simp add: emits_known_def init_def)
  ultimately have "''peer-error'' \<in> known_events" by (auto simp: emits_known_def)
  then show False by (simp add: known_events_def)
qed

































subsection \<open>Discovery\<close>




subsection \<open>Requests\<close>




subsection \<open>Connections per peer\<close>

text \<open>
  Claim C4, as amended. The script keeps no table of peer connections: every listed peer
  other than self in a \<^verbatim>\<open>discover\<close> message and every \<^verbatim>\<open>request\<close> message add a
  connection for that identity to those already made, whatever these are and whichever
  of the two identifiers is smaller.
\<close>

theorem connections_not_keyed_by_peer:
  assumes "socket s = Some k" "k < length (sockets s)" "\<not> disconnected (sockets s ! k)"
    "filter (\<lambda>h. event_name h = ''discover'') (handlers (sockets s ! k)) = [OnDiscover ls]"
    "filter (\<lambda>h. event_name h = ''request'') (handlers (sockets s ! k)) = [OnRequest ls']"
    "peerOptions p = ValidConfig"
  shows "map peer (conns (recv p k (MDiscover ps) s)) =
           map peer (conns s) @ filter (\<lambda>x. Some x \<noteq> sock_id (sockets s ! k)) ps \<and>
         map peer (conns (recv p k (MRequest x) s)) = map peer (conns s) @ [x]"
proof -
  have "map peer (conns (recv p k (MDiscover ps) s)) =
           map peer (conns s) @ filter (\<lambda>x. Some x \<noteq> sock_id (sockets s ! k)) ps"
    by (simp add: recv_discover_frame(4)[OF assms(1,2,3,4,6)] new_conn_def comp_def)
  moreover have "map peer (conns (recv p k (MRequest x) s)) = map peer (conns s) @ [x]"
    using assms by (simp add: recv_request on_request_valid log_def new_conn_def)
  ultimately show ?thesis by simp
qed

theorem connections_not_keyed_by_peer_witness:
  "socket connected1 = Some 0 \<and> 0 < length (sockets connected1) \<and>
   \<not> disconnected (sockets connected1 ! 0) \<and>
   filter (\<lambda>h. event_name h = ''discover'') (handlers (sockets connected1 ! 0)) = [OnDiscover camera] \<and>
   filter (\<lambda>h. event_name h = ''request'') (handlers (sockets connected1 ! 0)) = [OnRequest camera] \<and>
   peerOptions props0 = ValidConfig \<and>
   map peer (conns (recv props0 0 (MDiscover [''p1'', ''p2'', ''p1'']) connected1)) =
     [''p1'', ''p1'', ''p1''] \<and>
   map peer (conns (recv props0 0 (MRequest ''p1'') connected1)) = [''p1'', ''p1'']"
proof -
  have h1: "socket connected1 = Some 0" and h2: "0 < length (sockets connected1)"
    and h3: "\<not> disconnected (sockets connected1 ! 0)"
    and h4: "filter (\<lambda>h. event_name h = ''discover'') (handlers (sockets connected1 ! 0)) =
             [OnDiscover camera]"
    and h5: "filter (\<lambda>h. event_name h = ''request'') (handlers (sockets connected1 ! 0)) =
             [OnRequest camera]"
    by (simp_all add: connected1_eq)
  have h6: "peerOptions props0 = ValidConfig" by (simp add: props0_def)
  have c: "map peer (conns connected1) = [''p1'']"
    "filter (\<lambda>x. Some x \<noteq> sock_id (sockets connected1 ! 0)) [''p1'', ''p2'', ''p1''] = [''p1'', ''p1'']"
    by (simp_all add: connected1_eq)
  from connections_not_keyed_by_peer [OF h1 h2 h3 h4 h5 h6, of "[''p1'', ''p2'', ''p1'']" "''p1''"]
  show ?thesis using h1 h2 h3 h4 h5 h6 c by simp
qed

text \<open>
  Claim C4 as stated fails: self is \<^verbatim>\<open>p2\<close>; \<^verbatim>\<open>p1\<close> is listed and then sends a
  request. Two connections exist for \<^verbatim>\<open>p1\<close>, and the side with the larger identifier
  has initiated.
\<close>

theorem one_connection_per_peer_counterexample:
  "map peer (conns (run props0 with_nextTick joined
      [Recv 0 (MDiscover [''p1'']), Recv 0 (MRequest ''p1'')])) = [''p1'', ''p1''] \<and>
   map origin (conns (run props0 with_nextTick joined
      [Recv 0 (MDiscover [''p1'']), Recv 0 (MRequest ''p1'')])) = [ViaDiscover, ViaRequest] \<and>
   sock_id (sockets joined ! 0) = Some ''p2''"
  unfolding joined_eq by (simp add: run_defs Let_def)

subsection \<open>ICE candidates\<close>

lemma run_handler_ice:
  assumes "i < length (conns s)" "c \<noteq> []"
  shows "snd (run_handler p h (MIceCandidate x (Some c)) s) = None \<and>
     length (conns (fst (run_handler p h (MIceCandidate x (Some c)) s))) = length (conns s) \<and>
     calls (conns (fst (run_handler p h (MIceCandidate x (Some c)) s)) ! i) =
       calls (conns s ! i) @ (if h = OnIceCandidate i x then [AddIceCandidate c] else [])"
proof (cases h)
  case (OnIceCandidate j y)
  show ?thesis
  proof (cases "j = i")
    case True
    with OnIceCandidate assms show ?thesis
      by (simp add: on_ice_candidate_def pc_call_def)
  next
    case False
    with OnIceCandidate assms show ?thesis
      by (simp add: on_ice_candidate_def pc_call_def)
  qed
qed simp_all

lemma dispatch_ice:
  assumes "i < length (conns s)" "c \<noteq> []"
  shows "length (conns (dispatch p (MIceCandidate x (Some c)) hs s)) = length (conns s) \<and>
     calls (conns (dispatch p (MIceCandidate x (Some c)) hs s) ! i) =
       calls (conns s ! i) @ replicate (count_list hs (OnIceCandidate i x)) (AddIceCandidate c)"
  using assms
proof (induction hs arbitrary: s)
  case Nil
  then show ?case by simp
next
  case (Cons h hs)
  let ?r = "run_handler p h (MIceCandidate x (Some c)) s"
  note rh = run_handler_ice[OF Cons.prems, of p h x]
  obtain s1 where r: "?r = (s1, None)" using rh by (cases ?r) simp
  have s1: "length (conns s1) = length (conns s)"
    "calls (conns s1 ! i) = calls (conns s ! i) @ (if h = OnIceCandidate i x then [AddIceCandidate c] else [])"
    using rh r by simp_all
  have "i < length (conns s1)" using s1(1) Cons.prems by simp
  from Cons.IH[OF this Cons.prems(2)] show ?case
    by (simp add: r s1 replicate_app_Cons_same)
qed

text \<open>A message without a candidate, or with an empty one, changes nothing.\<close>

lemma dispatch_ice_falsy:
  "cand = None \<or> cand = Some [] \<Longrightarrow> dispatch p (MIceCandidate x cand) hs s = s"
proof (induction hs)
  case Nil
  then show ?case by simp
next
  case (Cons h hs)
  then show ?case by (cases h) (auto simp: on_ice_candidate_def)
qed

text \<open>
  Claim C2, as amended. A candidate (not empty) received from a peer is handed to
  \<^verbatim>\<open>addIceCandidate\<close> at once by every \<^verbatim>\<open>ice-candidate\<close> listener registered for that
  peer's connection, whatever calls were made on the connection before: nothing is
  queued, and with at least one listener registered the candidate is applied at least
  once.
\<close>

theorem ice_candidate_applied_on_receipt:
  assumes "k < length (sockets s)" "\<not> disconnected (sockets s ! k)" "i < length (conns s)"
    "OnIceCandidate i x \<in> set (handlers (sockets s ! k))" "c \<noteq> []"
  shows "calls (conns (recv p k (MIceCandidate x (Some c)) s) ! i) =
           calls (conns s ! i) @
           replicate (count_list (handlers (sockets s ! k)) (OnIceCandidate i x)) (AddIceCandidate c) \<and>
         0 < count_list (handlers (sockets s ! k)) (OnIceCandidate i x)"
proof -
  have "count_list (handlers (sockets s ! k)) (OnIceCandidate i x) \<noteq> 0"
    using assms(4) by (simp add: count_list_0_iff)
  then show ?thesis
    using assms(1,2) dispatch_ice[OF assms(3) assms(5), of p x "handlers (sockets s ! k)"]
    by (simp add: recv_def)
qed

theorem ice_candidate_applied_on_receipt_witness:
  "0 < length (sockets offered1) \<and> \<not> disconnected (sockets offered1 ! 0) \<and>
   0 < length (conns offered1) \<and>
   OnIceCandidate 0 ''p1'' \<in> set (handlers (sockets offered1 ! 0)) \<and>
   ''cand1'' \<noteq> [] \<and>
   calls (conns (recv props0 0 (MIceCandidate ''p1'' (Some ''cand1'')) offered1) ! 0) =
     [AddTrack 1, AddTrack 2, CreateOffer, SetLocalDescription ''offer1'',
      AddIceCandidate ''cand1'']"
proof -
  have h1: "0 < length (sockets offered1)" and h2: "\<not> disconnected (sockets offered1 ! 0)"
    and h3: "0 < length (conns offered1)"
    and h4: "OnIceCandidate 0 ''p1'' \<in> set (handlers (sockets offered1 ! 0))"
    by (simp_all add: offered1_eq)
  have h5: "''cand1'' \<noteq> []" by simp
  have c: "calls (conns offered1 ! 0) =
       [AddTrack 1, AddTrack 2, CreateOffer, SetLocalDescription ''offer1'']"
    "count_list (handlers (sockets offered1 ! 0)) (OnIceCandidate 0 ''p1'') = 1"
    by (simp_all add: offered1_eq)
  from ice_candidate_applied_on_receipt [OF h1 h2 h3 h4 h5, of props0]
  show ?thesis using h1 h2 h3 h4 by (simp add: c)
qed

text \<open>
  Claim C2 as stated fails: a candidate from \<^verbatim>\<open>p1\<close> that arrives before the answer is
  applied on receipt, before any remote description is set, and by both listeners of
  \<^verbatim>\<open>connectToPeer\<close>.
\<close>

theorem ice_candidate_queue_counterexample:
  "calls (conns (run props0 with_nextTick joined
      [Recv 0 (MDiscover [''p1'']), OfferSettled 0 (Inr ''offer1''),
       LocalDescriptionSettled 0 None,
       Recv 0 (MIceCandidate ''p1'' (Some ''cand1'')),
       Recv 0 (MAnswer ''p1'' ''answer1'')]) ! 0) =
     [AddTrack 1, AddTrack 2, CreateOffer, SetLocalDescription ''offer1'',
      AddIceCandidate ''cand1'', AddIceCandidate ''cand1'', SetRemoteDescription ''answer1'']"
  unfolding joined_eq by (simp add: run_defs Let_def)

subsection \<open>Failures of a negotiation\<close>

text \<open>
  Claim C7, as amended. A failure of \<^verbatim>\<open>createOffer\<close>, of \<^verbatim>\<open>setLocalDescription\<close>, of an
  awaited \<^verbatim>\<open>setRemoteDescription\<close> or \<^verbatim>\<open>addIceCandidate\<close>, or of the constructor of the
  peer connection is caught and written to the error console; no event is emitted for it,
  and no run of the component emits \<^verbatim>\<open>peer-error\<close>.
\<close>

theorem negotiation_failure_only_logged:
  "(i < length (conns s) \<and> phase (conns s ! i) = AwaitCreateOffer \<longrightarrow>
      emitted (step p g s (OfferSettled i (Inl e))) = emitted s \<and>
      console (step p g s (OfferSettled i (Inl e))) =
        console s @ [(ErrorLevel, catch_message (origin (conns s ! i)))]) \<and>
   (i < length (conns s) \<and> phase (conns s ! i) = AwaitSetLocalDescription offer \<longrightarrow>
      emitted (step p g s (LocalDescriptionSettled i (Some e))) = emitted s \<and>
      console (step p g s (LocalDescriptionSettled i (Some e))) =
        console s @ [(ErrorLevel, catch_message (origin (conns s ! i)))]) \<and>
   (n < length (pending s) \<longrightarrow>
      emitted (step p g s (Settled n (Some e))) = emitted s \<and>
      console (step p g s (Settled n (Some e))) =
        console s @ [(ErrorLevel, await_message (snd (pending s ! n)))]) \<and>
   (peerOptions p = InvalidConfig \<longrightarrow>
      emitted (on_request p ls x s) = emitted s \<and>
      console (on_request p ls x s) =
        console (log p ''request'' s) @ [(ErrorLevel, ''Error accepting peer request:'')]) \<and>
   (peerOptions p = InvalidConfig \<and> socket s = Some k \<and> Some x \<noteq> sock_id (sockets s ! k) \<longrightarrow>
      emitted (connectToPeer p ls x s) = emitted s \<and>
      console (connectToPeer p ls x s) =
        console (log p (''Connecting to peer: '' @ x) s) @
        [(ErrorLevel, ''Error connecting to peer:'')]) \<and>
   (\<forall>es a. (''peer-error'', a) \<notin> set (emitted (run p g init es)))"
  by (simp add: peer_error_never_emitted offer_settled_def local_description_settled_def
        settled_def fail_conn_def set_phase_def console_error_def on_request_def
        connectToPeer_def Let_def log_def catch_message_def)

theorem negotiation_failure_only_logged_witness:
  "0 < length (conns discovered1) \<and> phase (conns discovered1 ! 0) = AwaitCreateOffer \<and>
   emitted (step props0 with_nextTick discovered1 (OfferSettled 0 (Inl ''OperationError''))) =
     emitted discovered1 \<and>
   console (step props0 with_nextTick discovered1 (OfferSettled 0 (Inl ''OperationError''))) =
     [(ErrorLevel, ''Error connecting to peer:'')] \<and>
   0 < length (conns offered1) \<and>
   phase (conns offered1 ! 0) = AwaitSetLocalDescription ''offer1'' \<and>
   emitted (step props0 with_nextTick offered1
      (LocalDescriptionSettled 0 (Some ''OperationError''))) = emitted offered1 \<and>
   0 < length (pending answering1) \<and>
   emitted (step props0 with_nextTick answering1 (Settled 0 (Some ''InvalidStateError''))) =
     emitted answering1 \<and>
   console (step props0 with_nextTick answering1 (Settled 0 (Some ''InvalidStateError''))) =
     [(ErrorLevel, ''Error setting remote description: '')] \<and>
   peerOptions invalid_options = InvalidConfig \<and>
   emitted (on_request invalid_options camera ''p1'' joined) = emitted joined \<and>
   socket joined = Some 0 \<and> Some ''p1'' \<noteq> sock_id (sockets joined ! 0) \<and>
   emitted (connectToPeer invalid_options camera ''p1'' joined) = emitted joined \<and>
   (''peer-error'', Err ''InvalidStateError'') \<notin>
     set (emitted (run props0 with_nextTick init
       [CallJoinRoom, GumSettled (Inr camera), Settled 0 (Some ''InvalidStateError'')]))"
proof -
  have h1: "0 < length (conns discovered1) \<and> phase (conns discovered1 ! 0) = AwaitCreateOffer"
    and o1: "origin (conns discovered1 ! 0) = ViaDiscover" and k1: "console discovered1 = []"
    by (simp_all add: discovered1_eq)
  have h2: "0 < length (conns offered1) \<and>
      phase (conns offered1 ! 0) = AwaitSetLocalDescription ''offer1''"
    by (simp add: offered1_eq)
  have h3: "0 < length (pending answering1)"
    and p3: "snd (pending answering1 ! 0) = SetRemoteDescription ''answer1''"
    and k3: "console answering1 = []"
    by (simp_all add: answering1_eq)
  have h4: "peerOptions invalid_options = InvalidConfig"
    by (simp add: invalid_options_def)
  note t1 = negotiation_failure_only_logged
         [where i = 0 and s = discovered1 and e = "''OperationError''" and p = props0
            and g = with_nextTick]
  note t2 = negotiation_failure_only_logged
         [where i = 0 and s = offered1 and e = "''OperationError''" and p = props0
            and g = with_nextTick and offer = "''offer1''"]
  note t3 = negotiation_failure_only_logged
         [where n = 0 and s = answering1 and e = "''InvalidStateError''" and p = props0
            and g = with_nextTick]
  have h6: "socket joined = Some 0 \<and> Some ''p1'' \<noteq> sock_id (sockets joined ! 0)"
    by (simp add: joined_eq)
  note t4 = negotiation_failure_only_logged
         [where s = joined and p = invalid_options and ls = camera and x = "''p1''" and k = 0]
  note t5 = negotiation_failure_only_logged [where p = props0 and g = with_nextTick]
  have c1: "emitted (step props0 with_nextTick discovered1 (OfferSettled 0 (Inl ''OperationError''))) =
      emitted discovered1 \<and>
    console (step props0 with_nextTick discovered1 (OfferSettled 0 (Inl ''OperationError''))) =
      [(ErrorLevel, ''Error connecting to peer:'')]"
    using t1 h1 by (simp add: o1 k1 catch_message_def)
  have c2: "emitted (step props0 with_nextTick offered1
      (LocalDescriptionSettled 0 (Some ''OperationError''))) = emitted offered1"
    using t2 h2 by simp
  have c3: "emitted (step props0 with_nextTick answering1 (Settled 0 (Some ''InvalidStateError''))) =
      emitted answering1 \<and>
    console (step props0 with_nextTick answering1 (Settled 0 (Some ''InvalidStateError''))) =
      [(ErrorLevel, ''Error setting remote description: '')]"
    using t3 h3 by (simp add: p3 k3 await_message_def)
  have c4: "emitted (on_request invalid_options camera ''p1'' joined) = emitted joined"
    using t4 h4 by simp
  have c6: "emitted (connectToPeer invalid_options camera ''p1'' joined) = emitted joined"
    using t4 h4 h6 by simp
  have c5: "(''peer-error'', Err ''InvalidStateError'') \<notin>
     set (emitted (run props0 with_nextTick init
       [CallJoinRoom, GumSettled (Inr camera), Settled 0 (Some ''InvalidStateError'')]))"
    using t5 by blast
  show ?thesis using h1 h2 h3 h4 h6 c1 c2 c3 c4 c5 c6 by blast
qed

text \<open>
  Claim C7 as stated fails. The peer's answer is rejected by \<^verbatim>\<open>setRemoteDescription\<close>: the
  only trace is a line on the error console; the events emitted are those of joining and
  opening the room.
\<close>

theorem negotiation_failure_counterexample:
  "emitted (run props0 with_nextTick joined
      [Recv 0 (MDiscover [''p1'']), OfferSettled 0 (Inr ''offer1''),
       LocalDescriptionSettled 0 None, Recv 0 (MAnswer ''p1'' ''answer1''),
       Settled 0 (Some ''InvalidStateError'')]) =
     [(''joined-room'', Str ''cam''), (''opened-room'', Str ''abc123'')] \<and>
   console (run props0 with_nextTick joined
      [Recv 0 (MDiscover [''p1'']), OfferSettled 0 (Inr ''offer1''),
       LocalDescriptionSettled 0 None, Recv 0 (MAnswer ''p1'' ''answer1''),
       Settled 0 (Some ''InvalidStateError'')]) =
     [(ErrorLevel, ''Error setting remote description: '')]"
  unfolding joined_eq by (simp add: run_defs Let_def)

end
